theory Spec2Isabelle
  imports Complex_Main
begin

section \<open>The vector store of rag-retriever (src/vectorstore/store.py)\<close>

text \<open>
  The module holds one class, \<open>VectorStore\<close>, with three methods that carry the
  design: \<open>_get_or_create_db\<close>, \<open>add_documents\<close> and \<open>search\<close>. Everything else is
  a call into langchain (the text splitter, the Chroma wrapper) or into the operating
  system (\<open>os.makedirs\<close>, \<open>os.path.exists\<close>, \<open>os.listdir\<close>).

  The embedding is shallow. A Python exception is a value of type \<open>exn\<close>, a method
  that may raise returns \<open>exn + 'a\<close>, and a method that changes the object or the disk
  returns the new object and the new world next to its result, also when it raises:
  what an exception leaves behind is part of the behaviour.
\<close>

subsection \<open>Documents and exceptions\<close>

text \<open>\<open>langchain_core.documents.Document\<close>: a text and a metadata dictionary.\<close>

record document =
  page_content :: string
  metadata :: "(string \<times> string) list"

text \<open>
  The exceptions the module distinguishes. \<open>except ValueError\<close> catches
  \<open>ValueError\<close> and its subclasses; \<open>UnboundLocalError\<close> is a \<open>NameError\<close> and is not
  caught by it; \<open>OtherError\<close> stands for every exception class outside
  \<open>ValueError\<close> (network, quota, operating system).
\<close>

datatype exn = ValueError string | UnboundLocalError string | OtherError string

fun is_ValueError :: "exn \<Rightarrow> bool" where
  "is_ValueError (ValueError m) = True"
| "is_ValueError (UnboundLocalError m) = False"
| "is_ValueError (OtherError m) = False"

text \<open>The error of lines 62-66, the spec's \<open>NoIndexAndNoDataError\<close>.\<close>

definition NoIndexAndNoDataError :: exn where
  "NoIndexAndNoDataError =
     ValueError ''No existing vector store found and no documents provided to create one.''"

subsection \<open>The world outside the object: directories and open handles\<close>

text \<open>
  A directory is empty or holds a persisted collection, abstracted to the chunks stored
  in it, in insertion order. The file system maps a path to its directory, \<open>None\<close> when
  the path does not exist. \<open>opened\<close> counts the Chroma clients opened so far; a handle
  carries the number it was opened under and the directory it is bound to.
\<close>

datatype directory = EmptyDir | IndexDir "document list"

record world =
  fs :: "string \<Rightarrow> directory option"
  opened :: nat

datatype chroma = Handle (handle_id: nat) (handle_dir: string)

text \<open>What \<open>os.listdir\<close> sees: nothing in an empty directory, the engine's files in
  one that holds a collection (only whether the list is empty matters to the module).\<close>

fun entries :: "directory \<Rightarrow> string list" where
  "entries EmptyDir = []"
| "entries (IndexDir ds) = [''chroma.sqlite3'']"

text \<open>\<open>os.makedirs(path, exist_ok=True)\<close>, \<open>os.path.exists\<close> and \<open>os.listdir\<close>.\<close>

definition makedirs :: "string \<Rightarrow> world \<Rightarrow> world" where
  "makedirs path w =
     (case fs w path of
        None \<Rightarrow> w\<lparr>fs := (fs w)(path \<mapsto> EmptyDir)\<rparr>
      | Some d \<Rightarrow> w)"

definition path_exists :: "world \<Rightarrow> string \<Rightarrow> bool" where
  "path_exists w path = (fs w path \<noteq> None)"

definition listdir :: "world \<Rightarrow> string \<Rightarrow> string list" where
  "listdir w path = (case fs w path of None \<Rightarrow> [] | Some d \<Rightarrow> entries d)"

text \<open>The chunks of the collection persisted under a path.\<close>

definition stored :: "world \<Rightarrow> string \<Rightarrow> document list" where
  "stored w path = (case fs w path of Some (IndexDir ds) \<Rightarrow> ds | _ \<Rightarrow> [])"

subsection \<open>The external collaborators\<close>

text \<open>
  The splitter, the embedding provider and the database engine are libraries, not code
  of the module. Their behaviour is a parameter of the model:
  \<^item> \<open>new_text_splitter chunk_size chunk_overlap\<close> is the constructor
    \<open>RecursiveCharacterTextSplitter(...)\<close>: it raises, or gives a splitter whose
    \<open>split_documents\<close> raises or gives the chunks;
  \<^item> \<open>load_error\<close>, \<open>insert_error\<close>, \<open>create_error\<close> and \<open>query_error\<close> say when a
    database call raises (embedding failures included, since the engine embeds what it
    inserts), and with which exception. A failed insert reports how many of the chunks
    reached the collection before the exception; a failed creation reports whether it
    left a collection behind and with how many chunks;
  \<^item> \<open>relevance query chunk\<close> is the normalised relevance score of a chunk for a
    query.
\<close>

type_synonym text_splitter = "document list \<Rightarrow> exn + document list"

record collab =
  new_text_splitter :: "int \<Rightarrow> int \<Rightarrow> exn + text_splitter"
  load_error :: "world \<Rightarrow> string \<Rightarrow> exn option"
  insert_error :: "world \<Rightarrow> chroma \<Rightarrow> document list \<Rightarrow> (exn \<times> nat) option"
  create_error :: "world \<Rightarrow> string \<Rightarrow> document list \<Rightarrow> (exn \<times> nat option) option"
  query_error :: "world \<Rightarrow> chroma \<Rightarrow> string \<Rightarrow> exn option"
  relevance :: "string \<Rightarrow> document \<Rightarrow> real"

text \<open>
  The database engine (langchain's Chroma wrapper over chromadb) is a library outside
  src/. Its three writing operations follow section 6 of the spec, with the failures
  as the parameter above decides them.
\<close>

text \<open>Modelled from the spec: the engine's \<open>load(path, distance_metric)\<close>, the
  constructor call \<open>Chroma(persist_directory=...)\<close> of lines 50-54, is not under src/.
  It gives a new handle on the collection persisted at the path and leaves the stored
  chunks as they are.\<close>

definition Chroma :: "collab \<Rightarrow> string \<Rightarrow> world \<Rightarrow> (exn + chroma) \<times> world" where
  "Chroma C path w =
     (case load_error C w path of
        Some e \<Rightarrow> (Inl e, w)
      | None \<Rightarrow>
          (Inr (Handle (opened w) path),
           w\<lparr>fs := (fs w)(path \<mapsto> IndexDir (stored w path)), opened := Suc (opened w)\<rparr>))"

text \<open>Modelled from the spec: the engine's \<open>insert(handle, vectors, metadatas, texts)\<close>,
  the method \<open>db.add_documents\<close> of lines 58 and 94, is not under src/. It appends the
  chunks to the collection of the handle's directory; when it raises, the first \<open>n\<close>
  chunks have been stored.\<close>

definition Chroma_add_documents ::
  "collab \<Rightarrow> chroma \<Rightarrow> document list \<Rightarrow> world \<Rightarrow> (exn + unit) \<times> world" where
  "Chroma_add_documents C h docs w =
     (case insert_error C w h docs of
        Some (e, n) \<Rightarrow>
          (Inl e,
           w\<lparr>fs := (fs w)(handle_dir h \<mapsto> IndexDir (stored w (handle_dir h) @ take n docs))\<rparr>)
      | None \<Rightarrow>
          (Inr (),
           w\<lparr>fs := (fs w)(handle_dir h \<mapsto> IndexDir (stored w (handle_dir h) @ docs))\<rparr>))"

text \<open>Modelled from the spec: the engine's \<open>create(vectors, metadatas, texts,
  distance_metric)\<close>, the class method \<open>Chroma.from_documents\<close> of lines 69-74, is not
  under src/. It persists a collection holding the chunks under the path and gives a
  new handle on it.\<close>

definition Chroma_from_documents ::
  "collab \<Rightarrow> document list \<Rightarrow> string \<Rightarrow> world \<Rightarrow> (exn + chroma) \<times> world" where
  "Chroma_from_documents C docs path w =
     (case create_error C w path docs of
        Some (e, None) \<Rightarrow> (Inl e, w)
      | Some (e, Some n) \<Rightarrow>
          (Inl e, w\<lparr>fs := (fs w)(path \<mapsto> IndexDir (stored w path @ take n docs))\<rparr>)
      | None \<Rightarrow>
          (Inr (Handle (opened w) path),
           w\<lparr>fs := (fs w)(path \<mapsto> IndexDir (stored w path @ docs)),
             opened := Suc (opened w)\<rparr>))"

text \<open>
  The scored query of the engine, \<open>similarity_search_with_relevance_scores\<close>, is
  outside src/ as well. Section 4.2 of the spec describes it: it "performs
  nearest-neighbor search for up to \<open>limit\<close> candidates, converts the database's native
  distance into a normalized relevance score, and discards any result scoring below
  \<open>score_threshold\<close>", and "returns results ordered by descending relevance score; ties
  broken by insertion order".
\<close>

text \<open>Modelled from the spec: the relevance score of every stored chunk for a query
  (embedding and distance are not under src/).\<close>

definition scored :: "collab \<Rightarrow> string \<Rightarrow> document list \<Rightarrow> (document \<times> real) list" where
  "scored C query ds = map (\<lambda>d. (d, relevance C query d)) ds"

text \<open>Modelled from the spec: the nearest-neighbour search for up to \<open>k\<close> candidates,
  not under src/: the \<open>k\<close> best scores, in descending order, ties in insertion order
  (a stable sort on the negated score).\<close>

definition nearest :: "nat \<Rightarrow> (document \<times> real) list \<Rightarrow> (document \<times> real) list" where
  "nearest k rs = take k (sort_key (\<lambda>r. - snd r) rs)"

text \<open>Modelled from the spec: \<open>similarity_search_with_relevance_scores\<close> of the
  Chroma wrapper, not under src/: the candidates scoring below \<open>score_threshold\<close> are
  discarded. The query does not change the world.\<close>

definition similarity_search_with_relevance_scores ::
  "collab \<Rightarrow> chroma \<Rightarrow> string \<Rightarrow> int \<Rightarrow> real \<Rightarrow> world
     \<Rightarrow> (exn + (document \<times> real) list) \<times> world" where
  "similarity_search_with_relevance_scores C h query k score_threshold w =
     (case query_error C w h query of
        Some e \<Rightarrow> (Inl e, w)
      | None \<Rightarrow>
          (Inr (filter (\<lambda>r. score_threshold \<le> snd r)
                  (nearest (nat k) (scored C query (stored w (handle_dir h))))),
           w))"

text \<open>Modelled from the spec: the Chunker, \<open>split_documents\<close> of langchain's
  \<open>RecursiveCharacterTextSplitter\<close>, is not under src/. Section 4.1 of the spec: each
  document's text is split into chunks, and "metadata is copied unchanged onto every
  chunk derived from a document". How a text is cut (\<open>split_text\<close>) stays a
  parameter.\<close>

definition chunks_of :: "(string \<Rightarrow> string list) \<Rightarrow> document \<Rightarrow> document list" where
  "chunks_of split_text d =
     map (\<lambda>t. \<lparr>page_content = t, metadata = metadata d\<rparr>) (split_text (page_content d))"

text \<open>Modelled from the spec: the Chunker over a sequence of documents, not under
  src/: the chunks of each document, in the order of the documents.\<close>

definition split_documents :: "(string \<Rightarrow> string list) \<Rightarrow> document list \<Rightarrow> document list" where
  "split_documents split_text docs = concat (map (chunks_of split_text) docs)"

subsection \<open>The class VectorStore\<close>

text \<open>
  The fields of an instance: \<open>persist_directory\<close> and the cached handle \<open>_db\<close>
  (\<open>None\<close> after \<open>__init__\<close>, line 28). \<open>config.content\<close> is read for the two
  splitter settings.
\<close>

record vector_store =
  persist_directory :: string
  db :: "chroma option"

record config =
  chunk_size :: int
  chunk_overlap :: int

text \<open>\<open>_get_or_create_db\<close>, lines 37-75.\<close>

definition get_or_create_db ::
  "collab \<Rightarrow> document list option \<Rightarrow> vector_store \<Rightarrow> world
     \<Rightarrow> (exn + chroma) \<times> vector_store \<times> world" where
  "get_or_create_db C documents self w =
     (case db self of
        Some h \<Rightarrow> (Inr h, self, w)
      | None \<Rightarrow>
          (let w1 = makedirs (persist_directory self) w in
           if path_exists w1 (persist_directory self) \<and> listdir w1 (persist_directory self) \<noteq> []
           then
             (case Chroma C (persist_directory self) w1 of
                (Inl e, w2) \<Rightarrow> (Inl e, self, w2)
              | (Inr h, w2) \<Rightarrow>
                  (case documents of
                     None \<Rightarrow> (Inr h, self\<lparr>db := Some h\<rparr>, w2)
                   | Some ds \<Rightarrow>
                       (case Chroma_add_documents C h ds w2 of
                          (Inl e, w3) \<Rightarrow> (Inl e, self\<lparr>db := Some h\<rparr>, w3)
                        | (Inr u, w3) \<Rightarrow> (Inr h, self\<lparr>db := Some h\<rparr>, w3))))
           else
             (case documents of
                None \<Rightarrow> (Inl NoIndexAndNoDataError, self, w1)
              | Some ds \<Rightarrow>
                  (case Chroma_from_documents C ds (persist_directory self) w1 of
                     (Inl e, w2) \<Rightarrow> (Inl e, self, w2)
                   | (Inr h, w2) \<Rightarrow> (Inr h, self\<lparr>db := Some h\<rparr>, w2)))))"

text \<open>
  \<open>add_documents\<close>, lines 77-100. The body of the \<open>try\<close> gives, next to its outcome,
  the local variable \<open>splits\<close> as it stands when the body is left: \<open>None\<close> while it is
  unassigned. The handler reads that variable.
\<close>

definition add_documents_try ::
  "collab \<Rightarrow> config \<Rightarrow> document list \<Rightarrow> vector_store \<Rightarrow> world
     \<Rightarrow> (exn + int) \<times> document list option \<times> vector_store \<times> world" where
  "add_documents_try C cfg documents self w =
     (case new_text_splitter C (chunk_size cfg) (chunk_overlap cfg) of
        Inl e \<Rightarrow> (Inl e, None, self, w)
      | Inr text_splitter \<Rightarrow>
          (case text_splitter documents of
             Inl e \<Rightarrow> (Inl e, None, self, w)
           | Inr splits \<Rightarrow>
               (case get_or_create_db C None self w of
                  (Inl e, self1, w1) \<Rightarrow> (Inl e, Some splits, self1, w1)
                | (Inr h, self1, w1) \<Rightarrow>
                    (case Chroma_add_documents C h splits w1 of
                       (Inl e, w2) \<Rightarrow> (Inl e, Some splits, self1, w2)
                     | (Inr u, w2) \<Rightarrow> (Inr (int (length splits)), Some splits, self1, w2)))))"

definition add_documents_except ::
  "collab \<Rightarrow> document list option \<Rightarrow> vector_store \<Rightarrow> world
     \<Rightarrow> (exn + int) \<times> vector_store \<times> world" where
  "add_documents_except C splits_var self w =
     (case splits_var of
        None \<Rightarrow> (Inl (UnboundLocalError ''splits''), self, w)
      | Some splits \<Rightarrow>
          (case get_or_create_db C (Some splits) self w of
             (Inl e, self1, w1) \<Rightarrow> (Inl e, self1, w1)
           | (Inr h, self1, w1) \<Rightarrow> (Inr (int (length splits)), self1, w1)))"

definition add_documents ::
  "collab \<Rightarrow> config \<Rightarrow> document list \<Rightarrow> vector_store \<Rightarrow> world
     \<Rightarrow> (exn + int) \<times> vector_store \<times> world" where
  "add_documents C cfg documents self w =
     (case add_documents_try C cfg documents self w of
        (Inr n, splits_var, self1, w1) \<Rightarrow> (Inr n, self1, w1)
      | (Inl e, splits_var, self1, w1) \<Rightarrow>
          (if is_ValueError e then add_documents_except C splits_var self1 w1
           else (Inl e, self1, w1)))"

text \<open>\<open>search\<close>, lines 102-115.\<close>

definition search ::
  "collab \<Rightarrow> string \<Rightarrow> int \<Rightarrow> real \<Rightarrow> vector_store \<Rightarrow> world
     \<Rightarrow> (exn + (document \<times> real) list) \<times> vector_store \<times> world" where
  "search C query limit score_threshold self w =
     (case get_or_create_db C None self w of
        (Inl e, self1, w1) \<Rightarrow> (Inl e, self1, w1)
      | (Inr h, self1, w1) \<Rightarrow>
          (case similarity_search_with_relevance_scores C h query limit score_threshold w1 of
             (results, w2) \<Rightarrow> (results, self1, w2)))"

text \<open>
  The lifetime of an instance is a sequence of calls of its two public methods; the
  caller may catch what a call raises and go on, so a run keeps the object and the
  world of each call whatever its outcome.
\<close>

datatype call = AddDocuments "document list" | Search string int real

fun step :: "collab \<Rightarrow> config \<Rightarrow> call \<Rightarrow> vector_store \<times> world \<Rightarrow> vector_store \<times> world" where
  "step C cfg (AddDocuments ds) (self, w) = snd (add_documents C cfg ds self w)"
| "step C cfg (Search q k t) (self, w) = snd (search C q k t self w)"

fun run :: "collab \<Rightarrow> config \<Rightarrow> call list \<Rightarrow> vector_store \<times> world \<Rightarrow> vector_store \<times> world" where
  "run C cfg [] s = s"
| "run C cfg (c # cs) s = run C cfg cs (step C cfg c s)"

text \<open>
  A relation between two states of an object and its world, used to follow the
  directory through a run: the object keeps its \<open>persist_directory\<close>, the directory
  stays if it was there, and it is there whenever the cached handle has changed.
\<close>

definition dir_kept :: "vector_store \<times> world \<Rightarrow> vector_store \<times> world \<Rightarrow> bool" where
  "dir_kept s s' =
     (persist_directory (fst s') = persist_directory (fst s)
      \<and> (path_exists (snd s) (persist_directory (fst s))
           \<longrightarrow> path_exists (snd s') (persist_directory (fst s)))
      \<and> (db (fst s') \<noteq> db (fst s) \<longrightarrow> path_exists (snd s') (persist_directory (fst s))))"

subsection \<open>Concrete collaborators, objects and worlds\<close>

text \<open>
  The inputs the theorems below are evaluated at. \<open>reliable\<close> never raises: its
  splitter keeps every text as one chunk (texts no longer than the chunk size), and a
  chunk scores 1 when it is the query, 1/2 when it starts with the query's first
  character and 0 otherwise. \<open>rejecting_insert\<close> is \<open>reliable\<close> with an insert that
  raises a \<open>ValueError\<close> before any chunk is stored, as the Chroma wrapper does for a
  metadata value it cannot store. \<open>rejecting_splitter\<close> is \<open>reliable\<close> with a
  constructor that raises a \<open>ValueError\<close> when the overlap exceeds the chunk size,
  \<open>failing_split\<close> has a splitter whose \<open>split_documents\<close> raises one, and \<open>halving\<close>
  cuts every text in two. The directory is absent in \<open>fresh_world\<close>, empty in
  \<open>empty_world\<close> and holds three chunks in \<open>populated_world\<close>; \<open>new_store\<close> is an
  object as \<open>__init__\<close> leaves it, \<open>open_store\<close> one with a cached handle.
\<close>

definition example_dir :: string where
  "example_dir = ''chromadb''"

definition paris :: document where
  "paris = \<lparr>page_content = ''Paris is the capital of France.'',
            metadata = [(''source'', ''geo.txt'')]\<rparr>"

definition rome :: document where
  "rome = \<lparr>page_content = ''Rome'', metadata = [(''source'', ''it.txt'')]\<rparr>"

definition berlin :: document where
  "berlin = \<lparr>page_content = ''Berlin'', metadata = [(''source'', ''de.txt'')]\<rparr>"

definition riga :: document where
  "riga = \<lparr>page_content = ''Riga'', metadata = [(''source'', ''lv.txt'')]\<rparr>"

definition one_chunk :: "string \<Rightarrow> string list" where
  "one_chunk t = [t]"

definition halves :: "string \<Rightarrow> string list" where
  "halves t = [take (length t div 2) t, drop (length t div 2) t]"

definition reliable :: collab where
  "reliable =
     \<lparr>new_text_splitter = (\<lambda>size overlap. Inr (\<lambda>ds. Inr (split_documents one_chunk ds))),
      load_error = (\<lambda>w p. None),
      insert_error = (\<lambda>w h ds. None),
      create_error = (\<lambda>w p ds. None),
      query_error = (\<lambda>w h q. None),
      relevance = (\<lambda>q d. if page_content d = q then 1
                           else if take 1 (page_content d) = take 1 q then 1 / 2 else 0)\<rparr>"

definition rejecting_insert :: collab where
  "rejecting_insert =
     reliable\<lparr>insert_error :=
       (\<lambda>w h ds. Some (ValueError ''Expected metadata value to be a str, int, float or bool'', 0))\<rparr>"

definition rejecting_splitter :: collab where
  "rejecting_splitter =
     reliable\<lparr>new_text_splitter :=
       (\<lambda>size overlap.
          if size < overlap then Inl (ValueError ''Got a larger chunk overlap than chunk size'')
          else new_text_splitter reliable size overlap)\<rparr>"

definition default_config :: config where
  "default_config = \<lparr>chunk_size = 1000, chunk_overlap = 200\<rparr>"

definition bad_config :: config where
  "bad_config = \<lparr>chunk_size = 100, chunk_overlap = 200\<rparr>"

definition fresh_world :: world where
  "fresh_world = \<lparr>fs = (\<lambda>p. None), opened = 0\<rparr>"

definition populated_world :: world where
  "populated_world = \<lparr>fs = (\<lambda>p. None)(example_dir \<mapsto> IndexDir [rome, berlin, riga]), opened = 1\<rparr>"

definition new_store :: vector_store where
  "new_store = \<lparr>persist_directory = example_dir, db = None\<rparr>"

definition open_store :: vector_store where
  "open_store = \<lparr>persist_directory = example_dir, db = Some (Handle 0 example_dir)\<rparr>"

definition empty_world :: world where
  "empty_world = \<lparr>fs = (\<lambda>p. None)(example_dir \<mapsto> EmptyDir), opened = 0\<rparr>"

definition failing_split :: collab where
  "failing_split =
     reliable\<lparr>new_text_splitter :=
       (\<lambda>size overlap. Inr (\<lambda>ds. Inl (ValueError ''Could not split the documents'')))\<rparr>"

definition halving :: collab where
  "halving =
     reliable\<lparr>new_text_splitter :=
       (\<lambda>size overlap. Inr (\<lambda>ds. Inr (split_documents halves ds)))\<rparr>"

section \<open>Properties\<close>

subsection \<open>Unfolding the model\<close>

lemmas model_defs =
  add_documents_def add_documents_try_def add_documents_except_def get_or_create_db_def
  search_def Chroma_def Chroma_add_documents_def Chroma_from_documents_def
  similarity_search_with_relevance_scores_def scored_def nearest_def
  makedirs_def path_exists_def listdir_def stored_def split_documents_def chunks_of_def
  NoIndexAndNoDataError_def

subsection \<open>The fast path of \<open>_get_or_create_db\<close>\<close>

lemma get_or_create_db_cached:
  "db self = Some h \<Longrightarrow> get_or_create_db C documents self w = (Inr h, self, w)"
  by (simp add: get_or_create_db_def)

lemma opened_Chroma_add_documents:
  "Chroma_add_documents C h ds w = (r, w') \<Longrightarrow> opened w' = opened w"
  by (auto simp: Chroma_add_documents_def split: option.splits prod.splits)

lemma opened_similarity_search:
  "opened (snd (similarity_search_with_relevance_scores C h q k t w)) = opened w"
  by (simp add: similarity_search_with_relevance_scores_def split: option.splits)

lemma add_documents_cached:
  assumes "db self = Some h"
  shows "fst (snd (add_documents C cfg documents self w)) = self"
    and "opened (snd (snd (add_documents C cfg documents self w))) = opened w"
  using assms
  by (auto simp: add_documents_def add_documents_try_def add_documents_except_def
        get_or_create_db_cached split: sum.splits prod.splits option.splits
        dest: opened_Chroma_add_documents)

lemma add_documents_cached_world:
  assumes "db self = Some h"
    and "new_text_splitter C (chunk_size cfg) (chunk_overlap cfg) = Inr sp"
    and "sp documents = Inr splits"
  shows "snd (add_documents C cfg documents self w)
           = (self, snd (Chroma_add_documents C h splits w))"
  using assms
  by (auto simp: add_documents_def add_documents_try_def add_documents_except_def
        get_or_create_db_cached split: sum.splits prod.splits option.splits)

lemma search_cached:
  assumes "db self = Some h"
  shows "search C query limit score_threshold self w =
           (case similarity_search_with_relevance_scores C h query limit score_threshold w of
              (results, w') \<Rightarrow> (results, self, w'))"
  using assms by (simp add: search_def get_or_create_db_cached)

lemma step_cached:
  assumes "db self = Some h"
  shows "fst (step C cfg c (self, w)) = self
       \<and> opened (snd (step C cfg c (self, w))) = opened w"
proof (cases c)
  case (AddDocuments ds)
  then show ?thesis
    using add_documents_cached [OF assms, of C cfg ds w] by simp
next
  case (Search q k t)
  then show ?thesis
    using search_cached [OF assms, of C q k t w] opened_similarity_search [of C h q k t w]
    by (simp split: prod.splits)
qed

lemma run_cached:
  "db self = Some h \<Longrightarrow>
     fst (run C cfg calls (self, w)) = self
     \<and> opened (snd (run C cfg calls (self, w))) = opened w"
proof (induction calls arbitrary: w)
  case Nil
  then show ?case by simp
next
  case (Cons c cs)
  obtain w' where s: "step C cfg c (self, w) = (self, w')" and o: "opened w' = opened w"
    using step_cached [OF Cons.prems, of C cfg c w]
    by (cases "step C cfg c (self, w)") auto
  show ?case
    using Cons.IH [OF Cons.prems, of w'] s o by simp
qed

subsection \<open>The scored query\<close>

lemma nearest_length: "length (nearest k rs) \<le> k"
  by (simp add: nearest_def)

lemma nearest_descending:
  fixes rs :: "(document \<times> real) list"
  shows "sorted (map (\<lambda>r. - snd r) (nearest k rs))"
proof -
  have "sorted (map (\<lambda>r. - snd r) (sort_key (\<lambda>r. - snd r) rs))"
    by (rule sorted_sort_key)
  then have "sorted (take k (map (\<lambda>r. - snd r) (sort_key (\<lambda>r. - snd r) rs)))"
    by (rule sorted_wrt_take)
  then show ?thesis
    by (simp add: nearest_def take_map)
qed

lemma descending_filter:
  fixes rs :: "(document \<times> real) list"
  assumes "sorted (map (\<lambda>r. - snd r) rs)"
  shows "sorted_wrt (\<lambda>a b. snd b \<le> snd a) (filter P rs)"
proof -
  have "sorted (map (\<lambda>r. - snd r) (filter P rs))"
    using assms by (rule sorted_filter)
  then show ?thesis
    by (simp add: sorted_map)
qed

subsection \<open>What \<open>add_documents\<close> guarantees\<close>

text \<open>
  The two facts below hold for every behaviour of the collaborators. Errors outside
  \<open>ValueError\<close>, from the splitter or from the insert, reach the caller as they are.
  And when no insert ever raises a \<open>ValueError\<close>, a call that returns normally has
  appended every chunk it produced to the collection of the object's directory.
\<close>

lemma insert_ok_stored:
  "Chroma_add_documents C h splits w = (Inr u, w') \<Longrightarrow>
     stored w' (handle_dir h) = stored w (handle_dir h) @ splits"
  by (auto simp: Chroma_add_documents_def stored_def split: option.splits prod.splits)

lemma insert_error_not_ValueError:
  assumes "\<And>w h ds e k. insert_error C w h ds = Some (e, k) \<Longrightarrow> \<not> is_ValueError e"
    and "Chroma_add_documents C h splits w = (Inl e, w')"
  shows "\<not> is_ValueError e"
  using assms
  by (auto simp: Chroma_add_documents_def split: option.splits prod.splits)

lemma get_or_create_db_None_ok:
  assumes "get_or_create_db C None self w = (Inr h, self1, w1)"
    and "\<And>h. db self = Some h \<Longrightarrow> handle_dir h = persist_directory self"
  shows "handle_dir h = persist_directory self
       \<and> stored w1 (persist_directory self) = stored w (persist_directory self)"
  using assms
  by (auto simp: get_or_create_db_def Chroma_def makedirs_def path_exists_def listdir_def
        stored_def Let_def
        split: option.splits prod.splits sum.splits if_splits directory.splits)

lemma get_or_create_db_fallback:
  assumes "get_or_create_db C None self w = (Inl e, self1, w1)"
    and "get_or_create_db C (Some splits) self1 w1 = (Inr h, self2, w2)"
  shows "stored w2 (persist_directory self) = stored w (persist_directory self) @ splits"
  using assms
  by (auto simp: get_or_create_db_def Chroma_def Chroma_from_documents_def makedirs_def
        path_exists_def listdir_def stored_def Let_def
        split: option.splits prod.splits sum.splits if_splits directory.splits)

lemma add_documents_other_errors_propagate:
  assumes "\<not> is_ValueError e"
  shows "(new_text_splitter C (chunk_size cfg) (chunk_overlap cfg) = Inl e
            \<longrightarrow> add_documents C cfg documents self w = (Inl e, self, w))
       \<and> (new_text_splitter C (chunk_size cfg) (chunk_overlap cfg) = Inr sp
            \<and> sp documents = Inl e
            \<longrightarrow> add_documents C cfg documents self w = (Inl e, self, w))
       \<and> (db self = Some h
            \<and> new_text_splitter C (chunk_size cfg) (chunk_overlap cfg) = Inr sp
            \<and> sp documents = Inr splits
            \<and> fst (Chroma_add_documents C h splits w) = Inl e
            \<longrightarrow> fst (add_documents C cfg documents self w) = Inl e)"
  using assms
  by (auto simp: add_documents_def add_documents_try_def add_documents_except_def
        get_or_create_db_cached split: sum.splits prod.splits)

lemma add_documents_inserts_all:
  assumes ok: "fst (add_documents C cfg documents self w) = Inr n"
    and ins: "\<And>w h ds e k. insert_error C w h ds = Some (e, k) \<Longrightarrow> \<not> is_ValueError e"
    and inv: "\<And>h. db self = Some h \<Longrightarrow> handle_dir h = persist_directory self"
  shows "\<exists>sp splits. new_text_splitter C (chunk_size cfg) (chunk_overlap cfg) = Inr sp
           \<and> sp documents = Inr splits
           \<and> stored (snd (snd (add_documents C cfg documents self w))) (persist_directory self)
               = stored w (persist_directory self) @ splits"
proof -
  obtain sp splits where
    sp: "new_text_splitter C (chunk_size cfg) (chunk_overlap cfg) = Inr sp"
    and splits: "sp documents = Inr splits"
    using ok
    by (auto simp: add_documents_def add_documents_try_def add_documents_except_def
          split: sum.splits prod.splits if_splits option.splits)
  obtain r self1 w1 where g: "get_or_create_db C None self w = (r, self1, w1)"
    by (cases "get_or_create_db C None self w") auto
  have "stored (snd (snd (add_documents C cfg documents self w))) (persist_directory self)
          = stored w (persist_directory self) @ splits"
  proof (cases r)
    case (Inl e)
    obtain r2 self2 w2 where g2: "get_or_create_db C (Some splits) self1 w1 = (r2, self2, w2)"
      by (cases "get_or_create_db C (Some splits) self1 w1") auto
    from ok sp splits g Inl g2 obtain h where r2: "r2 = Inr h" and v: "is_ValueError e"
      by (auto simp: add_documents_def add_documents_try_def add_documents_except_def
            split: sum.splits if_splits)
    have "stored w2 (persist_directory self) = stored w (persist_directory self) @ splits"
      using get_or_create_db_fallback [of C self w e self1 w1 splits h self2 w2] g g2 Inl r2
      by simp
    then show ?thesis
      using sp splits g Inl g2 r2 v
      by (simp add: add_documents_def add_documents_try_def add_documents_except_def)
  next
    case (Inr h)
    obtain r3 w3 where a: "Chroma_add_documents C h splits w1 = (r3, w3)"
      by (cases "Chroma_add_documents C h splits w1") auto
    have hd: "handle_dir h = persist_directory self"
      and st: "stored w1 (persist_directory self) = stored w (persist_directory self)"
      using get_or_create_db_None_ok [of C self w h self1 w1] g Inr inv by auto
    show ?thesis
    proof (cases r3)
      case (Inl e)
      then have "\<not> is_ValueError e"
        using insert_error_not_ValueError [of C h splits w1 e w3] ins a by blast
      then show ?thesis
        using ok sp splits g Inr a Inl
        by (simp add: add_documents_def add_documents_try_def)
    next
      case (Inr u)
      then have "stored w3 (persist_directory self) = stored w (persist_directory self) @ splits"
        using insert_ok_stored [of C h splits w1 u w3] a hd st by simp
      then show ?thesis
        using sp splits g \<open>r = Inr h\<close> a Inr
        by (simp add: add_documents_def add_documents_try_def)
    qed
  qed
  then show ?thesis
    using sp splits by blast
qed

subsection \<open>The directory over the lifetime of an instance\<close>

text \<open>
  Every method keeps the directory once it exists, and caches a handle only after
  \<open>os.makedirs\<close> has run. So an object that started with no handle (line 28) and
  whose directory is absent has no handle cached, whatever was called on it before.
\<close>

lemma dir_kept_refl: "dir_kept s s"
  by (simp add: dir_kept_def)

lemma dir_kept_trans: "dir_kept s s' \<Longrightarrow> dir_kept s' s'' \<Longrightarrow> dir_kept s s''"
  by (auto simp: dir_kept_def)

lemma dir_kept_get_or_create_db:
  "dir_kept (self, w) (snd (get_or_create_db C documents self w))"
  by (auto simp: dir_kept_def get_or_create_db_def Chroma_def Chroma_add_documents_def
        Chroma_from_documents_def makedirs_def path_exists_def listdir_def Let_def
        split: option.splits prod.splits sum.splits if_splits)

lemma dir_kept_Chroma_add_documents:
  "dir_kept (self, w) (self, snd (Chroma_add_documents C h ds w))"
  by (auto simp: dir_kept_def Chroma_add_documents_def path_exists_def
        split: option.splits prod.splits)

lemma dir_kept_except:
  "dir_kept (self, w) (snd (add_documents_except C splits_var self w))"
proof (cases splits_var)
  case None
  then show ?thesis
    by (simp add: add_documents_except_def dir_kept_refl)
next
  case (Some splits)
  then have "snd (add_documents_except C splits_var self w)
               = snd (get_or_create_db C (Some splits) self w)"
    by (simp add: add_documents_except_def split: prod.splits sum.splits)
  then show ?thesis
    using dir_kept_get_or_create_db [of self w C "Some splits"] by simp
qed

lemma dir_kept_try:
  "dir_kept (self, w) (snd (snd (add_documents_try C cfg documents self w)))"
proof (cases "new_text_splitter C (chunk_size cfg) (chunk_overlap cfg)")
  case (Inl e)
  then show ?thesis
    by (simp add: add_documents_try_def dir_kept_refl)
next
  case sp: (Inr text_splitter)
  show ?thesis
  proof (cases "text_splitter documents")
    case (Inl e)
    then show ?thesis
      using sp by (simp add: add_documents_try_def dir_kept_refl)
  next
    case (Inr splits)
    obtain r self1 w1 where g: "get_or_create_db C None self w = (r, self1, w1)"
      by (cases "get_or_create_db C None self w") auto
    have k1: "dir_kept (self, w) (self1, w1)"
      using dir_kept_get_or_create_db [of self w C None] g by simp
    show ?thesis
    proof (cases r)
      case (Inl e)
      then show ?thesis
        using sp Inr g k1 by (simp add: add_documents_try_def)
    next
      case h: (Inr h)
      have k2: "dir_kept (self1, w1) (self1, snd (Chroma_add_documents C h splits w1))"
        by (rule dir_kept_Chroma_add_documents)
      have "snd (snd (add_documents_try C cfg documents self w))
              = (self1, snd (Chroma_add_documents C h splits w1))"
        using sp Inr g h by (simp add: add_documents_try_def split: prod.splits sum.splits)
      then show ?thesis
        using dir_kept_trans [OF k1 k2] by simp
    qed
  qed
qed

lemma dir_kept_add_documents:
  "dir_kept (self, w) (snd (add_documents C cfg documents self w))"
proof -
  obtain r sv self1 w1 where t: "add_documents_try C cfg documents self w = (r, sv, self1, w1)"
    by (cases "add_documents_try C cfg documents self w") auto
  have k1: "dir_kept (self, w) (self1, w1)"
    using dir_kept_try [of self w C cfg documents] t by simp
  have k2: "dir_kept (self1, w1) (snd (add_documents_except C sv self1 w1))"
    by (rule dir_kept_except)
  show ?thesis
  proof (cases r)
    case (Inl e)
    then show ?thesis
      using t k1 dir_kept_trans [OF k1 k2] by (simp add: add_documents_def)
  next
    case (Inr n)
    then show ?thesis
      using t k1 by (simp add: add_documents_def)
  qed
qed

lemma dir_kept_search:
  "dir_kept (self, w) (snd (search C query limit score_threshold self w))"
proof -
  obtain r self1 w1 where g: "get_or_create_db C None self w = (r, self1, w1)"
    by (cases "get_or_create_db C None self w") auto
  have k1: "dir_kept (self, w) (self1, w1)"
    using dir_kept_get_or_create_db [of self w C None] g by simp
  have "snd (search C query limit score_threshold self w) = (self1, w1)"
    using g
    by (auto simp: search_def similarity_search_with_relevance_scores_def
          split: sum.splits option.splits)
  then show ?thesis
    using k1 by simp
qed

lemma dir_kept_step: "dir_kept s (step C cfg c s)"
proof (cases s)
  case (Pair self w)
  then show ?thesis
    using dir_kept_add_documents dir_kept_search by (cases c) simp_all
qed

lemma dir_kept_run: "dir_kept s (run C cfg calls s)"
proof (induction calls arbitrary: s)
  case Nil
  then show ?case by (simp add: dir_kept_refl)
next
  case (Cons c cs)
  show ?case
    using dir_kept_trans [OF dir_kept_step [of s C cfg c] Cons.IH [of "step C cfg c s"]]
    by simp
qed

lemma fresh_run_uncached:
  assumes "db self0 = None"
    and "run C cfg calls (self0, w0) = (self, w)"
    and "fs w (persist_directory self) = None"
  shows "db self = None"
  using dir_kept_run [of "(self0, w0)" C cfg calls] assms
  by (auto simp: dir_kept_def path_exists_def)

subsection \<open>Claims\<close>

text \<open>
  C1: a call of \<open>add_documents\<close> that returns normally has inserted all the chunks it
  produced; it never returns a count having inserted none or only some of them.

  The code breaks this when the insert of line 94 raises a \<open>ValueError\<close>. The handler
  of line 96, written for the missing index ("No existing DB, create new one with
  documents"), catches it and calls \<open>_get_or_create_db(splits)\<close>; the handle is cached
  by then, so line 41 returns it without inserting anything, and line 100 returns the
  count. Evaluated on an object not yet opened, over a directory holding three chunks,
  with an insert that raises a \<open>ValueError\<close>: the splitting step produces one chunk,
  the call returns 1, and the collection still holds the three old chunks only.
\<close>

theorem add_documents_reports_uninserted_chunks:
  "fst (snd (add_documents_try rejecting_insert default_config [paris] new_store populated_world))
     = Some [paris]
   \<and> fst (add_documents rejecting_insert default_config [paris] new_store populated_world) = Inr 1
   \<and> stored (snd (snd (add_documents rejecting_insert default_config [paris] new_store
                         populated_world))) example_dir = [rome, berlin, riga]"
  by (simp add: model_defs example_dir_def paris_def rome_def berlin_def riga_def
          one_chunk_def reliable_def
          rejecting_insert_def default_config_def new_store_def populated_world_def)

text \<open>
  C2: an error raised by the text splitter or by the database insert during
  \<open>add_documents\<close> reaches the caller unchanged, with no retry and no other path taken.

  The code breaks this for every \<open>ValueError\<close>, through the same handler as in C1. A
  \<open>ValueError\<close> of the splitter's constructor becomes an \<open>UnboundLocalError\<close>, and a
  \<open>ValueError\<close> of the insert on a cached handle is swallowed: the call returns the
  count.
\<close>

theorem add_documents_changes_collaborator_errors:
  "new_text_splitter rejecting_splitter (chunk_size bad_config) (chunk_overlap bad_config)
     = Inl (ValueError ''Got a larger chunk overlap than chunk size'')
   \<and> fst (add_documents rejecting_splitter bad_config [paris] new_store fresh_world)
     = Inl (UnboundLocalError ''splits'')
   \<and> fst (Chroma_add_documents rejecting_insert (Handle 0 example_dir) [paris] populated_world)
     = Inl (ValueError ''Expected metadata value to be a str, int, float or bool'')
   \<and> fst (add_documents rejecting_insert default_config [paris] open_store populated_world)
     = Inr 1"
  by (simp add: model_defs example_dir_def paris_def rome_def berlin_def riga_def
          one_chunk_def reliable_def
          rejecting_insert_def rejecting_splitter_def default_config_def bad_config_def
          new_store_def open_store_def fresh_world_def populated_world_def)

text \<open>
  C3: on an object with no cached handle whose directory is absent or empty, \<open>search\<close>
  raises the no-index error of lines 64-66 and returns no results, whatever the
  collaborators do.
\<close>

theorem search_unpopulated_raises:
  assumes "db self = None"
    and "fs w (persist_directory self) = None \<or> fs w (persist_directory self) = Some EmptyDir"
  shows "fst (search C query limit score_threshold self w) = Inl NoIndexAndNoDataError"
  using assms
  by (auto simp: search_def get_or_create_db_def makedirs_def path_exists_def listdir_def)

theorem search_unpopulated_raises_witness:
  "db new_store = None
   \<and> fs empty_world (persist_directory new_store) = Some EmptyDir
   \<and> fst (search reliable ''Rome'' 5 (1 / 5) new_store empty_world) = Inl NoIndexAndNoDataError"
proof -
  have h: "db new_store = None"
    by (simp add: new_store_def)
  have d: "fs empty_world (persist_directory new_store) = Some EmptyDir"
    by (simp add: new_store_def empty_world_def)
  show ?thesis
    using h d search_unpopulated_raises [OF h disjI2 [OF d], of reliable "''Rome''" 5 "1 / 5"]
    by simp
qed

text \<open>
  C4: \<open>_get_or_create_db\<close> with no cached handle. Over a non-empty directory it loads
  the existing index, caches the handle and returns it, and the disk is as it was; with
  pending chunks it inserts them into the loaded index first, so the collection is the
  old one followed by the pending chunks. Over an empty (or absent) directory with
  pending chunks it creates a new persisted index holding exactly those chunks, caches
  the handle and returns it. Each case is stated for the database call that does not
  raise; when it raises, the exception is the outcome.
\<close>

theorem get_or_create_db_load_or_create:
  assumes "db self = None"
  shows
    "(fs w (persist_directory self) = Some (IndexDir ds)
        \<and> load_error C w (persist_directory self) = None
      \<longrightarrow> get_or_create_db C None self w =
            (Inr (Handle (opened w) (persist_directory self)),
             self\<lparr>db := Some (Handle (opened w) (persist_directory self))\<rparr>,
             w\<lparr>opened := Suc (opened w)\<rparr>))
   \<and> (fs w (persist_directory self) = Some (IndexDir ds)
        \<and> load_error C w (persist_directory self) = None
        \<and> insert_error C (w\<lparr>opened := Suc (opened w)\<rparr>)
             (Handle (opened w) (persist_directory self)) pending = None
      \<longrightarrow> get_or_create_db C (Some pending) self w =
            (Inr (Handle (opened w) (persist_directory self)),
             self\<lparr>db := Some (Handle (opened w) (persist_directory self))\<rparr>,
             w\<lparr>fs := (fs w)(persist_directory self \<mapsto> IndexDir (ds @ pending)),
               opened := Suc (opened w)\<rparr>))
   \<and> ((fs w (persist_directory self) = None \<or> fs w (persist_directory self) = Some EmptyDir)
        \<and> create_error C (makedirs (persist_directory self) w) (persist_directory self) pending
            = None
      \<longrightarrow> get_or_create_db C (Some pending) self w =
            (Inr (Handle (opened w) (persist_directory self)),
             self\<lparr>db := Some (Handle (opened w) (persist_directory self))\<rparr>,
             w\<lparr>fs := (fs w)(persist_directory self \<mapsto> IndexDir pending),
               opened := Suc (opened w)\<rparr>))"
proof (intro conjI impI)
  assume "fs w (persist_directory self) = Some (IndexDir ds)
        \<and> load_error C w (persist_directory self) = None"
  then show "get_or_create_db C None self w =
            (Inr (Handle (opened w) (persist_directory self)),
             self\<lparr>db := Some (Handle (opened w) (persist_directory self))\<rparr>,
             w\<lparr>opened := Suc (opened w)\<rparr>)"
    using assms
    by (simp add: get_or_create_db_def makedirs_def path_exists_def listdir_def Chroma_def
          stored_def fun_upd_idem)
next
  assume "fs w (persist_directory self) = Some (IndexDir ds)
        \<and> load_error C w (persist_directory self) = None
        \<and> insert_error C (w\<lparr>opened := Suc (opened w)\<rparr>)
             (Handle (opened w) (persist_directory self)) pending = None"
  then show "get_or_create_db C (Some pending) self w =
            (Inr (Handle (opened w) (persist_directory self)),
             self\<lparr>db := Some (Handle (opened w) (persist_directory self))\<rparr>,
             w\<lparr>fs := (fs w)(persist_directory self \<mapsto> IndexDir (ds @ pending)),
               opened := Suc (opened w)\<rparr>)"
    using assms
    by (simp add: get_or_create_db_def makedirs_def path_exists_def listdir_def Chroma_def
          Chroma_add_documents_def stored_def fun_upd_idem)
next
  assume "(fs w (persist_directory self) = None \<or> fs w (persist_directory self) = Some EmptyDir)
        \<and> create_error C (makedirs (persist_directory self) w) (persist_directory self) pending
            = None"
  then show "get_or_create_db C (Some pending) self w =
            (Inr (Handle (opened w) (persist_directory self)),
             self\<lparr>db := Some (Handle (opened w) (persist_directory self))\<rparr>,
             w\<lparr>fs := (fs w)(persist_directory self \<mapsto> IndexDir pending),
               opened := Suc (opened w)\<rparr>)"
    using assms
    by (auto simp: get_or_create_db_def makedirs_def path_exists_def listdir_def
          Chroma_from_documents_def stored_def fun_upd_idem)
qed

theorem get_or_create_db_load_or_create_witness:
  "db new_store = None
   \<and> get_or_create_db reliable None new_store populated_world =
       (Inr (Handle 1 example_dir), new_store\<lparr>db := Some (Handle 1 example_dir)\<rparr>,
        populated_world\<lparr>opened := 2\<rparr>)
   \<and> stored (snd (snd (get_or_create_db reliable (Some [paris]) new_store populated_world)))
       example_dir = [rome, berlin, riga, paris]
   \<and> db (fst (snd (get_or_create_db reliable (Some [paris]) new_store populated_world)))
       = Some (Handle 1 example_dir)
   \<and> stored (snd (snd (get_or_create_db reliable (Some [paris]) new_store fresh_world)))
       example_dir = [paris]
   \<and> db (fst (snd (get_or_create_db reliable (Some [paris]) new_store fresh_world)))
       = Some (Handle 0 example_dir)"
proof -
  have h: "db new_store = None"
    by (simp add: new_store_def)
  show ?thesis
    using h
      get_or_create_db_load_or_create [OF h, of populated_world "[rome, berlin, riga]" reliable
        "[paris]"]
      get_or_create_db_load_or_create [OF h, of fresh_world "[]" reliable "[paris]"]
    by (simp add: new_store_def populated_world_def fresh_world_def reliable_def stored_def
          makedirs_def)
qed

text \<open>
  C5: a \<open>search\<close> with a positive \<open>limit\<close> that returns results returns at most
  \<open>limit\<close> of them, each with a relevance score of at least \<open>score_threshold\<close>, in
  descending order of score. \<open>search\<close> hands \<open>limit\<close> and \<open>score_threshold\<close> to the
  database engine and returns its answer as it is (lines 110-115), so the three
  properties are those of the engine's scored query as the spec describes it. They hold
  for every threshold, inside \<open>[0, 1]\<close> or not.
\<close>

theorem search_results_bounded:
  assumes "fst (search C query limit score_threshold self w) = Inr results"
    and "0 < limit"
  shows "int (length results) \<le> limit
       \<and> (\<forall>r \<in> set results. score_threshold \<le> snd r)
       \<and> sorted_wrt (\<lambda>a b. snd b \<le> snd a) results"
proof -
  obtain h w1 where
    r: "results = filter (\<lambda>r. score_threshold \<le> snd r)
                    (nearest (nat limit) (scored C query (stored w1 (handle_dir h))))"
    using assms(1)
    by (auto simp: search_def similarity_search_with_relevance_scores_def
          split: sum.splits prod.splits option.splits)
  have "length results \<le> nat limit"
    unfolding r
    by (rule order_trans [OF length_filter_le nearest_length])
  then have "int (length results) \<le> limit"
    using assms(2) by simp
  moreover have "\<forall>r \<in> set results. score_threshold \<le> snd r"
    unfolding r by simp
  moreover have "sorted_wrt (\<lambda>a b. snd b \<le> snd a) results"
    unfolding r by (rule descending_filter [OF nearest_descending])
  ultimately show ?thesis by simp
qed

theorem search_results_bounded_witness:
  "fst (search reliable ''Riga'' 2 (3 / 5) new_store populated_world) = Inr [(riga, 1)]
   \<and> (0::int) < 2
   \<and> int (length [(riga, 1::real)]) \<le> 2
   \<and> (3 / 5 :: real) \<le> snd (riga, 1::real)"
proof -
  have s: "fst (search reliable ''Riga'' 2 (3 / 5) new_store populated_world) = Inr [(riga, 1)]"
    by (simp add: model_defs example_dir_def paris_def rome_def berlin_def riga_def
          one_chunk_def reliable_def
          new_store_def populated_world_def)
  have l: "(0::int) < 2"
    by simp
  show ?thesis
    using s l search_results_bounded [OF s l] by simp
qed

text \<open>
  C6: once a handle is cached, \<open>_get_or_create_db\<close> returns it at once and leaves the
  object and the world as they are (nothing is reopened or reloaded); over any sequence
  of later \<open>add_documents\<close> and \<open>search\<close> calls, whatever they raise, the cached handle
  stays the same and no further handle is opened; \<open>search\<close> queries that handle and
  \<open>add_documents\<close> inserts through it.
\<close>

theorem cached_handle_is_kept:
  assumes "db self = Some h"
  shows "get_or_create_db C pending self w = (Inr h, self, w)
       \<and> db (fst (run C cfg calls (self, w))) = Some h
       \<and> opened (snd (run C cfg calls (self, w))) = opened w
       \<and> search C query limit score_threshold self w =
           (case similarity_search_with_relevance_scores C h query limit score_threshold w of
              (results, w') \<Rightarrow> (results, self, w'))
       \<and> (\<forall>sp splits. new_text_splitter C (chunk_size cfg) (chunk_overlap cfg) = Inr sp
             \<longrightarrow> sp documents = Inr splits
             \<longrightarrow> snd (add_documents C cfg documents self w)
                   = (self, snd (Chroma_add_documents C h splits w)))"
  using assms get_or_create_db_cached [OF assms] run_cached [OF assms, of C cfg calls w]
    search_cached [OF assms] add_documents_cached_world [OF assms]
  by simp

theorem cached_handle_is_kept_witness:
  "db open_store = Some (Handle 0 example_dir)
   \<and> get_or_create_db reliable (Some [paris]) open_store populated_world
       = (Inr (Handle 0 example_dir), open_store, populated_world)
   \<and> db (fst (run rejecting_insert default_config
               [AddDocuments [paris], Search ''Rome'' 2 (1 / 5), AddDocuments [rome]]
               (open_store, populated_world))) = Some (Handle 0 example_dir)
   \<and> opened (snd (run rejecting_insert default_config
               [AddDocuments [paris], Search ''Rome'' 2 (1 / 5), AddDocuments [rome]]
               (open_store, populated_world))) = 1"
proof -
  have h: "db open_store = Some (Handle 0 example_dir)"
    by (simp add: open_store_def)
  have o: "opened populated_world = 1"
    by (simp add: populated_world_def)
  show ?thesis
    using h o
      cached_handle_is_kept [OF h, of reliable "Some [paris]" populated_world default_config "[]"]
      cached_handle_is_kept [OF h, of rejecting_insert None populated_world default_config
        "[AddDocuments [paris], Search ''Rome'' 2 (1 / 5), AddDocuments [rome]]"]
    by simp
qed

text \<open>
  C7: the integer a successful \<open>add_documents\<close> returns is the number of chunks the
  splitter, built with the configured \<open>chunk_size\<close> and \<open>chunk_overlap\<close>, produced from
  the input documents; it is not the size of the index.
\<close>

theorem add_documents_returns_chunk_count:
  assumes "fst (add_documents C cfg documents self w) = Inr n"
  shows "\<exists>sp splits. new_text_splitter C (chunk_size cfg) (chunk_overlap cfg) = Inr sp
           \<and> sp documents = Inr splits \<and> n = int (length splits)"
  using assms
  by (auto simp: add_documents_def add_documents_try_def add_documents_except_def
           split: sum.splits prod.splits if_splits option.splits)

theorem add_documents_returns_chunk_count_witness:
  "fst (add_documents reliable default_config [paris] new_store populated_world) = Inr 1
   \<and> (\<exists>sp splits.
         new_text_splitter reliable (chunk_size default_config) (chunk_overlap default_config)
           = Inr sp
         \<and> sp [paris] = Inr splits \<and> (1::int) = int (length splits))
   \<and> length (stored (snd (snd (add_documents reliable default_config [paris] new_store
                                populated_world))) example_dir) = 4"
proof -
  have r: "fst (add_documents reliable default_config [paris] new_store populated_world) = Inr 1"
    by (simp add: model_defs example_dir_def paris_def rome_def berlin_def riga_def
          one_chunk_def reliable_def
          default_config_def new_store_def populated_world_def)
  have l: "length (stored (snd (snd (add_documents reliable default_config [paris] new_store
                                populated_world))) example_dir) = 4"
    by (simp add: model_defs example_dir_def paris_def rome_def berlin_def riga_def
          one_chunk_def reliable_def
          default_config_def new_store_def populated_world_def)
  show ?thesis
    using r l add_documents_returns_chunk_count [OF r] by simp
qed

text \<open>
  C8: every chunk that the splitting step of \<open>add_documents\<close> produces (the local
  variable \<open>splits\<close> of line 88) carries the metadata of the document it was cut from,
  unchanged. The module itself never touches a chunk; the property is the Chunker's, as
  the spec describes it, for any way of cutting a text.
\<close>

theorem chunks_carry_parent_metadata:
  assumes "new_text_splitter C (chunk_size cfg) (chunk_overlap cfg)
             = Inr (\<lambda>ds. Inr (split_documents split_text ds))"
    and "fst (snd (add_documents_try C cfg documents self w)) = Some splits"
  shows "\<forall>c \<in> set splits. \<exists>d \<in> set documents.
           metadata c = metadata d \<and> page_content c \<in> set (split_text (page_content d))"
proof -
  have "splits = split_documents split_text documents"
    using assms
    by (auto simp: add_documents_try_def split: sum.splits prod.splits)
  then show ?thesis
    by (auto simp: split_documents_def chunks_of_def)
qed

theorem chunks_carry_parent_metadata_witness:
  "new_text_splitter halving (chunk_size default_config) (chunk_overlap default_config)
     = Inr (\<lambda>ds. Inr (split_documents halves ds))
   \<and> fst (snd (add_documents_try halving default_config [rome] open_store populated_world))
     = Some [\<lparr>page_content = ''Ro'', metadata = [(''source'', ''it.txt'')]\<rparr>,
             \<lparr>page_content = ''me'', metadata = [(''source'', ''it.txt'')]\<rparr>]
   \<and> metadata \<lparr>page_content = ''Ro'', metadata = [(''source'', ''it.txt'')]\<rparr> = metadata rome
   \<and> metadata \<lparr>page_content = ''me'', metadata = [(''source'', ''it.txt'')]\<rparr> = metadata rome"
proof -
  have n: "new_text_splitter halving (chunk_size default_config) (chunk_overlap default_config)
             = Inr (\<lambda>ds. Inr (split_documents halves ds))"
    by (simp add: halving_def reliable_def)
  have s: "fst (snd (add_documents_try halving default_config [rome] open_store populated_world))
             = Some [\<lparr>page_content = ''Ro'', metadata = [(''source'', ''it.txt'')]\<rparr>,
                     \<lparr>page_content = ''me'', metadata = [(''source'', ''it.txt'')]\<rparr>]"
    by (simp add: model_defs example_dir_def paris_def rome_def berlin_def riga_def
          one_chunk_def reliable_def
          halving_def halves_def default_config_def open_store_def populated_world_def)
  show ?thesis
    using n s chunks_carry_parent_metadata [OF n s] by simp
qed

text \<open>
  C9: when a \<open>ValueError\<close> is raised before \<open>splits\<close> is assigned, by the splitter's
  constructor or by \<open>split_documents\<close>, the handler of line 99 reads the unassigned
  variable: the call fails with an unbound-local error, not with the original error,
  and changes nothing. Once splitting has completed, \<open>splits\<close> is assigned whenever the
  \<open>try\<close> body is left, so the handler is well defined exactly then.
\<close>

theorem add_documents_unbound_splits:
  "(new_text_splitter C (chunk_size cfg) (chunk_overlap cfg) = Inl (ValueError m)
      \<longrightarrow> add_documents C cfg documents self w = (Inl (UnboundLocalError ''splits''), self, w))
   \<and> (new_text_splitter C (chunk_size cfg) (chunk_overlap cfg) = Inr sp
        \<and> sp documents = Inl (ValueError m)
      \<longrightarrow> add_documents C cfg documents self w = (Inl (UnboundLocalError ''splits''), self, w))
   \<and> (new_text_splitter C (chunk_size cfg) (chunk_overlap cfg) = Inr sp
        \<and> sp documents = Inr splits
      \<longrightarrow> fst (snd (add_documents_try C cfg documents self w)) = Some splits)"
  by (auto simp: add_documents_def add_documents_try_def add_documents_except_def
        split: sum.splits prod.splits)

theorem add_documents_unbound_splits_witness:
  "new_text_splitter rejecting_splitter (chunk_size bad_config) (chunk_overlap bad_config)
     = Inl (ValueError ''Got a larger chunk overlap than chunk size'')
   \<and> add_documents rejecting_splitter bad_config [paris] new_store fresh_world
     = (Inl (UnboundLocalError ''splits''), new_store, fresh_world)
   \<and> add_documents failing_split default_config [paris] open_store populated_world
     = (Inl (UnboundLocalError ''splits''), open_store, populated_world)
   \<and> fst (snd (add_documents_try reliable default_config [paris] open_store populated_world))
     = Some [paris]"
proof -
  have a: "new_text_splitter rejecting_splitter (chunk_size bad_config) (chunk_overlap bad_config)
             = Inl (ValueError ''Got a larger chunk overlap than chunk size'')"
    by (simp add: rejecting_splitter_def bad_config_def)
  have b: "new_text_splitter failing_split (chunk_size default_config)
             (chunk_overlap default_config)
             = Inr (\<lambda>ds. Inl (ValueError ''Could not split the documents''))"
    by (simp add: failing_split_def)
  have c: "new_text_splitter reliable (chunk_size default_config) (chunk_overlap default_config)
             = Inr (\<lambda>ds. Inr (split_documents one_chunk ds))"
    by (simp add: reliable_def)
  have d: "split_documents one_chunk [paris] = [paris]"
    by (simp add: split_documents_def chunks_of_def one_chunk_def paris_def)
  show ?thesis
    using a b c d
      add_documents_unbound_splits [where C = rejecting_splitter and cfg = bad_config
        and m = "''Got a larger chunk overlap than chunk size''" and documents = "[paris]"
        and self = new_store and w = fresh_world]
      add_documents_unbound_splits [where C = failing_split and cfg = default_config
        and m = "''Could not split the documents''" and documents = "[paris]"
        and self = open_store and w = populated_world
        and sp = "\<lambda>ds. Inl (ValueError ''Could not split the documents'')"]
      add_documents_unbound_splits [where C = reliable and cfg = default_config
        and documents = "[paris]" and self = open_store and w = populated_world
        and sp = "\<lambda>ds. Inr (split_documents one_chunk ds)" and splits = "[paris]"]
    by simp
qed

text \<open>
  C10: take an object as \<open>__init__\<close> leaves it (no handle, line 28) and any sequence
  of calls on it. If its directory does not exist afterwards, a \<open>search\<close> creates the
  directory, empty (\<open>os.makedirs\<close>, line 44), and then raises the no-index error of
  line 64: the failing call leaves the file system changed.
\<close>

theorem search_creates_missing_directory:
  assumes "db self0 = None"
    and "run C0 cfg calls (self0, w0) = (self, w)"
    and "fs w (persist_directory self) = None"
  shows "search C query limit score_threshold self w =
           (Inl NoIndexAndNoDataError, self,
            w\<lparr>fs := (fs w)(persist_directory self \<mapsto> EmptyDir)\<rparr>)
         \<and> fs (snd (snd (search C query limit score_threshold self w))) (persist_directory self)
             = Some EmptyDir"
  using fresh_run_uncached [OF assms] assms(3)
  by (simp add: search_def get_or_create_db_def makedirs_def path_exists_def listdir_def)

theorem search_creates_missing_directory_witness:
  "db new_store = None
   \<and> run rejecting_splitter bad_config [AddDocuments [paris]] (new_store, fresh_world)
       = (new_store, fresh_world)
   \<and> fs fresh_world (persist_directory new_store) = None
   \<and> fst (search reliable ''Rome'' 5 (1 / 5) new_store fresh_world) = Inl NoIndexAndNoDataError
   \<and> fs (snd (snd (search reliable ''Rome'' 5 (1 / 5) new_store fresh_world)))
        (persist_directory new_store) = Some EmptyDir"
proof -
  have h: "db new_store = None"
    by (simp add: new_store_def)
  have r: "run rejecting_splitter bad_config [AddDocuments [paris]] (new_store, fresh_world)
             = (new_store, fresh_world)"
    by (simp add: add_documents_def add_documents_try_def add_documents_except_def
          rejecting_splitter_def bad_config_def)
  have d: "fs fresh_world (persist_directory new_store) = None"
    by (simp add: new_store_def fresh_world_def)
  show ?thesis
    using h r d search_creates_missing_directory [OF h r d, of reliable "''Rome''" 5 "1 / 5"]
    by simp
qed

end
